theory Spec2Isabelle
  imports Complex_Main
begin

section \<open>Geometries and catalog rows\<close>

text \<open>
  A ring is the ordered list of the vertices of a polygon's exterior; holes are not
  modelled. A geometry is a single polygon, a multipolygon (an ordered collection of
  polygons), a geometry of any other type (point, line, collection, ...), or missing
  (Python's \<open>None\<close> in the geometry cell). The type of a vertex is a parameter.
\<close>

type_synonym 'p ring = "'p list"

datatype 'p geometry =
    Polygon "'p ring"
  | MultiPolygon "'p ring list"
  | OtherGeometry
  | NoGeometry

text \<open>
  One row of the catalog: the country code \<open>GID_0\<close>, the region codes \<open>GID_1\<close>,
  \<open>GID_2\<close>, ... as a map from the level to the code (an empty cell is \<open>None\<close>),
  the region type \<open>TYPE_1\<close> and the geometry. The type of the geometry column is a
  parameter.
\<close>

record 'g area_row =
  GID_0 :: string
  GID_N :: "nat \<rightharpoonup> string"
  TYPE_1 :: string
  geometry :: 'g

text \<open>The errors that the functions modelled here can raise.\<close>

datatype py_error = ValueError | TypeError | AttributeError | UnboundLocalError

section \<open>remove_tiny_shapes\<close>

text \<open>
  \<open>pygeos.area\<close> is a parameter of the model, \<open>pygeos_area\<close>: the area that the library
  computes for a geometry, a double, taken as the real number it denotes. A float literal
  of the source denotes the double nearest to its decimal value; comparing two doubles
  is comparing these numbers. The three literals that are not whole numbers:
\<close>

definition float_0_1 :: real where
  "float_0_1 = 3602879701896397 / 2 ^ 55"

definition float_0_01 :: real where
  "float_0_01 = 5764607523034235 / 2 ^ 59"

definition float_0_001 :: real where
  "float_0_001 = 1152921504606847 / 2 ^ 60"

text \<open>The pair \<open>(area1, area2)\<close> of lines 42 to 48.\<close>

definition area_bounds :: "bool \<Rightarrow> real \<times> real" where
  "area_bounds regionalized =
     (if regionalized = False then (float_0_1, 250) else (float_0_01, 50))"

text \<open>The threshold of lines 55 to 66, from the country code, the flag, the total area
  and \<open>area2\<close>.\<close>

definition threshold :: "string \<Rightarrow> bool \<Rightarrow> real \<Rightarrow> real \<Rightarrow> real" where
  "threshold gid regionalized total_area area2 =
     (if gid \<in> set [''CHL'', ''IDN''] then float_0_01
      else if gid \<in> set [''RUS'', ''GRL'', ''CAN'', ''USA''] then
        (if regionalized = True then float_0_01 else float_0_01)
      else if total_area > area2 then float_0_1
      else float_0_001)"

text \<open>The loop of lines 69 to 72: \<open>new_geom\<close> collects, in order, the polygons whose
  area is above the threshold.\<close>

fun keep_loop :: "('p geometry \<Rightarrow> real) \<Rightarrow> real \<Rightarrow> 'p ring list \<Rightarrow> 'p ring list
    \<Rightarrow> 'p ring list" where
  "keep_loop pygeos_area t [] new_geom = new_geom"
| "keep_loop pygeos_area t (g # gs) new_geom =
     keep_loop pygeos_area t gs
       (if pygeos_area (Polygon g) > t then new_geom @ [g] else new_geom)"

text \<open>
  Line 74, \<open>pygeos.creation.multipolygons(numpy.array(new_geom))\<close>: an empty list makes
  an empty array of floats, which the constructor refuses with a ValueError; a list of
  polygons gives their multipolygon.
\<close>

definition multipolygons :: "'p ring list \<Rightarrow> py_error + 'p geometry" where
  "multipolygons new_geom = (if new_geom = [] then Inl ValueError else Inr (MultiPolygon new_geom))"

text \<open>
  The function returns the geometry of the row for a polygon and for a small
  multipolygon, the multipolygon built from the kept polygons otherwise, and nothing
  (Python's \<open>None\<close>, by falling off the end) for any other geometry type and for a
  missing geometry, whose type id is -1.
\<close>

definition remove_tiny_shapes :: "('p geometry \<Rightarrow> real) \<Rightarrow> 'p geometry area_row \<Rightarrow> bool
    \<Rightarrow> py_error + 'p geometry option" where
  "remove_tiny_shapes pygeos_area x regionalized =
     (case geometry x of
        Polygon r \<Rightarrow> Inr (Some (geometry x))
      | MultiPolygon gs \<Rightarrow>
          (let (area1, area2) = area_bounds regionalized in
           if pygeos_area (geometry x) < area1 then Inr (Some (geometry x))
           else
             let t = threshold (GID_0 x) regionalized (pygeos_area (geometry x)) area2
             in case multipolygons (keep_loop pygeos_area t gs []) of
                  Inl e \<Rightarrow> Inl e
                | Inr g \<Rightarrow> Inr (Some g))
      | OtherGeometry \<Rightarrow> Inr None
      | NoGeometry \<Rightarrow> Inr None)"

section \<open>poly_files\<close>

text \<open>
  The library calls of the boundary writer are parameters of the model: the centroid of
  a polygon (shapely, as a pair (lon, lat)), the geodesic distance in kilometres between
  two points given as (lat, lon) on the WGS-84 ellipsoid (geopy), and the text of a
  coordinate (\<open>str\<close> of a float).
\<close>

record 'c libs =
  centroid :: "('c \<times> 'c) ring \<Rightarrow> real \<times> real"
  geodesic_km :: "real \<times> real \<Rightarrow> real \<times> real \<Rightarrow> real"
  str_float :: "'c \<Rightarrow> string"

text \<open>\<open>str\<close> of a non-negative integer: its decimal digits.\<close>

definition digit_char :: "nat \<Rightarrow> char" where
  "digit_char d = ''0123456789'' ! d"

fun str_nat :: "nat \<Rightarrow> string" where
  "str_nat n =
     (if n < 10 then [digit_char n] else str_nat (n div 10) @ [digit_char (n mod 10)])"

declare str_nat.simps [simp del]

text \<open>\<open>os.path.join\<close> of two components (POSIX).\<close>

definition path_join :: "string \<Rightarrow> string \<Rightarrow> string" where
  "path_join a b =
     (if b \<noteq> [] \<and> hd b = CHR ''/'' then b
      else if a = [] \<or> last a = CHR ''/'' then a @ b
      else a @ ''/'' @ b)"

text \<open>A run either completes in a state, or raises an error in the state reached.\<close>

datatype 's outcome = Done 's | Raised py_error 's

definition final_state :: "'s outcome \<Rightarrow> 's" where
  "final_state r = (case r of Done s \<Rightarrow> s | Raised e s \<Rightarrow> s)"

definition raised :: "'s outcome \<Rightarrow> py_error option" where
  "raised r = (case r of Done s \<Rightarrow> None | Raised e s \<Rightarrow> Some e)"

text \<open>
  The state of the loop over the rows: the counter \<open>num\<close>, the variable \<open>polygons\<close>
  (unbound before the first assignment, and kept from one iteration to the next), the
  files written (path to content) and the lines printed.
\<close>

record 'c loop_state =
  num :: nat
  polygons :: "('c \<times> 'c) ring list option"
  files :: "string \<rightharpoonup> string"
  printed :: "string list"

text \<open>The loop of lines 314 to 316 over the vertices of one exterior ring, appending
  to the text of the file.\<close>

fun vertex_loop :: "'c libs \<Rightarrow> ('c \<times> 'c) ring \<Rightarrow> string \<Rightarrow> string" where
  "vertex_loop L [] f = f"
| "vertex_loop L (v # vs) f =
     vertex_loop L vs
       (f @ ''    '' @ str_float L (fst v) @ ''     '' @ str_float L (snd v) @ [CHR 0x0A])"

text \<open>
  The loop of lines 296 to 320 over the polygons, with the ring counter \<open>i\<close>, the text
  of the file and the lines printed. \<open>continue\<close> goes to the next polygon without
  writing and without counting.
\<close>

fun ring_loop :: "'c libs \<Rightarrow> string \<Rightarrow> string \<Rightarrow> ('c \<times> 'c) ring list
    \<Rightarrow> nat \<times> string \<times> string list \<Rightarrow> nat \<times> string \<times> string list" where
  "ring_loop L ctry attr [] s = s"
| "ring_loop L ctry attr (polygon # ps) (i, f, out) =
     (if ctry = ''CAN'' \<and>
         geodesic_km L (prod.swap (centroid L polygon)) (83.24, - 79.80) < 2000
      then ring_loop L ctry attr ps (i, f, out)
      else if ctry = ''RUS'' \<and>
         geodesic_km L (prod.swap (centroid L polygon)) (58.89, 82.26) < 500
      then ring_loop L ctry attr ps (i, f, out @ [attr])
      else ring_loop L ctry attr ps
             (i + 1,
              vertex_loop L polygon (f @ str_nat i @ [CHR 0x0A]) @ ''END'' @ [CHR 0x0A],
              out))"

text \<open>
  The body of the loop over the rows (lines 268 to 324). A missing geometry has no
  \<open>geom_type\<close>: line 274 raises before anything is written. A geometry that is neither
  a multipolygon nor a polygon assigns nothing to \<open>polygons\<close>. The name of the file is
  built from \<open>GID_1\<close> when regionalized and from \<open>GID_0\<close> otherwise; an empty
  \<open>GID_1\<close> cell is not a string, and the concatenation raises. The file is opened and
  its first line written before \<open>polygons\<close> is read.
\<close>

definition row_step :: "'c libs \<Rightarrow> string \<Rightarrow> bool \<Rightarrow> ('c \<times> 'c) geometry area_row
    \<Rightarrow> 'c loop_state \<Rightarrow> 'c loop_state outcome" where
  "row_step L poly_dir regionalized f st =
     (if geometry f = NoGeometry then Raised AttributeError (st\<lparr>num := num st + 1\<rparr>)
      else
       let st1 = st\<lparr>num := num st + 1,
                    polygons := (case geometry f of
                                   MultiPolygon gs \<Rightarrow> Some gs
                                 | Polygon g \<Rightarrow> Some [g]
                                 | _ \<Rightarrow> polygons st)\<rparr>;
           ctry = GID_0 f
       in case (if regionalized = True then GID_N f 1 else Some (GID_0 f)) of
            None \<Rightarrow> Raised TypeError st1
          | Some attr \<Rightarrow>
              (let path = poly_dir @ ''/'' @ attr @ ''.poly'';
                   f0 = attr @ [CHR 0x0A]
               in case polygons st1 of
                    None \<Rightarrow> Raised UnboundLocalError (st1\<lparr>files := (files st1)(path \<mapsto> f0)\<rparr>)
                  | Some ps \<Rightarrow>
                      (let (i, f1, out) = ring_loop L ctry attr ps (0, f0, printed st1)
                       in Done (st1\<lparr>files := (files st1)(path \<mapsto> f1 @ ''END'' @ [CHR 0x0A]),
                                     printed := out\<rparr>))))"

text \<open>The loop over the rows: an error raised in one iteration ends the loop.\<close>

fun rows_loop :: "'c libs \<Rightarrow> string \<Rightarrow> bool \<Rightarrow> ('c \<times> 'c) geometry area_row list
    \<Rightarrow> 'c loop_state \<Rightarrow> 'c loop_state outcome" where
  "rows_loop L poly_dir regionalized [] st = Done st"
| "rows_loop L poly_dir regionalized (f # fs) st =
     (case row_step L poly_dir regionalized f st of
        Raised e st' \<Rightarrow> Raised e st'
      | Done st' \<Rightarrow> rows_loop L poly_dir regionalized fs st')"

text \<open>
  poly_files: \<open>wb_poly\<close> is the table read from \<open>global_shape\<close>, \<open>fs\<close> the files
  present before the call.
\<close>

definition poly_files :: "'c libs \<Rightarrow> string \<Rightarrow> ('c \<times> 'c) geometry area_row list \<Rightarrow> bool
    \<Rightarrow> (string \<rightharpoonup> string) \<Rightarrow> 'c loop_state outcome" where
  "poly_files L data_path wb_poly regionalized fs =
     (let poly_dir = (if regionalized = True then path_join data_path ''regional_poly_files''
                      else path_join data_path ''country_poly_files'');
          wb_poly' = (if regionalized = True
                      then filter (\<lambda>r. TYPE_1 r \<noteq> ''Water body'')
                             (filter (\<lambda>r. GID_0 r \<noteq> ''-'') wb_poly)
                      else filter (\<lambda>r. GID_0 r \<noteq> ''-'') wb_poly)
      in rows_loop L poly_dir regionalized wb_poly'
           \<lparr>num = 0, polygons = None, files = fs, printed = []\<rparr>)"

text \<open>The state in which the loop over the rows starts.\<close>

definition start :: "(string \<rightharpoonup> string) \<Rightarrow> 'c loop_state" where
  "start fs = \<lparr>num = 0, polygons = None, files = fs, printed = []\<rparr>"

section \<open>global_shapefiles, regionalized branch\<close>

text \<open>
  Lines 189 to 198: the region code given to a country without regions, for the levels
  1 to 5; no column is assigned for any other level. \<open>str(0)\<close> is \<open>''0''\<close> and
  \<open>str(1)\<close> is \<open>''1''\<close>.
\<close>

definition missing_code :: "nat \<Rightarrow> string \<Rightarrow> string option" where
  "missing_code assigned_level gid0 =
     (if assigned_level = 1 then
        Some (gid0 @ ''.'' @ str_nat 0 @ ''_'' @ str_nat 1)
      else if assigned_level = 2 then
        Some (gid0 @ ''.'' @ str_nat 0 @ ''.'' @ str_nat 0 @ ''_'' @ str_nat 1)
      else if assigned_level = 3 then
        Some (gid0 @ ''.'' @ str_nat 0 @ ''.'' @ str_nat 0 @ ''.'' @ str_nat 0 @ ''_''
              @ str_nat 1)
      else if assigned_level = 4 then
        Some (gid0 @ ''.'' @ str_nat 0 @ ''.'' @ str_nat 0 @ ''.'' @ str_nat 0 @ ''.''
              @ str_nat 0 @ ''_'' @ str_nat 1)
      else if assigned_level = 5 then
        Some (gid0 @ ''.'' @ str_nat 0 @ ''.'' @ str_nat 0 @ ''.'' @ str_nat 0 @ ''.''
              @ str_nat 0 @ ''.'' @ str_nat 0 @ ''_'' @ str_nat 1)
      else None)"

definition assign_missing :: "nat \<Rightarrow> 'g area_row \<Rightarrow> 'g area_row" where
  "assign_missing assigned_level r =
     (case missing_code assigned_level (GID_0 r) of
        None \<Rightarrow> r
      | Some c \<Rightarrow> r\<lparr>GID_N := (GID_N r)(assigned_level \<mapsto> c)\<rparr>)"

text \<open>
  The tables that \<open>geopandas.read_file\<close> returns hold shapely geometries, and the
  functions of pygeos take pygeos geometries only: given a shapely object they raise a
  TypeError. The country branch converts each geometry with \<open>from_shapely\<close> before it
  calls remove_tiny_shapes (line 139); the regionalized branch does not. A cell of a
  table built in this branch holds a pygeos geometry or a shapely one.
\<close>

datatype 'p geom_object = Pygeos "'p geometry" | Shapely "'p geometry"

text \<open>
  remove_tiny_shapes on a row as read from a file: its first call of pygeos, line 36,
  raises for a shapely geometry; a missing geometry is no object of either library and
  goes through the function as before.
\<close>

definition remove_tiny_shapes_read :: "('p geometry \<Rightarrow> real) \<Rightarrow> 'p geometry area_row \<Rightarrow> bool
    \<Rightarrow> py_error + 'p geometry option" where
  "remove_tiny_shapes_read pygeos_area x regionalized =
     (if geometry x = NoGeometry then remove_tiny_shapes pygeos_area x regionalized
      else Inl TypeError)"

text \<open>\<open>progress_apply\<close> along the rows: the function is called row by row, and the
  first error ends the call.\<close>

fun apply_rows :: "('a \<Rightarrow> py_error + 'b) \<Rightarrow> 'a list \<Rightarrow> py_error + 'b list" where
  "apply_rows h [] = Inr []"
| "apply_rows h (x # xs) =
     (case h x of
        Inl e \<Rightarrow> Inl e
      | Inr y \<Rightarrow> (case apply_rows h xs of Inl e \<Rightarrow> Inl e | Inr ys \<Rightarrow> Inr (y # ys)))"

definition get_missing_countries :: "'a area_row list \<Rightarrow> 'b area_row list \<Rightarrow> string list" where
  "get_missing_countries level0 level_x =
     filter (\<lambda>g. g \<notin> set (map GID_0 level_x)) (remdups (map GID_0 level0))"

text \<open>
  The regionalized branch, lines 162 to 202. \<open>level0_file\<close> is the cleaned country
  table, \<open>None\<close> when its file does not exist: then the function prints an error and
  returns nothing. \<open>level_x\<close> is the region table of the requested level. Line 175
  applies remove_tiny_shapes (without its flag) to the rows and assigns the result to
  the geometry column; for a table without rows the result of the application is an
  empty table, which cannot be assigned to a column, and the assignment raises a
  ValueError. The lines after it simplify the geometries with the library (\<open>simplify\<close>,
  which leaves a missing geometry missing) and append the countries of \<open>level0\<close>
  with no row in \<open>level_x\<close>, each with its geometry of \<open>level0\<close> and a region code of
  its own. The conversion and the saving of lines 204 to 208 are left out.
\<close>

definition global_regions ::
    "('p geometry \<Rightarrow> 'p geometry) \<Rightarrow> ('p geometry \<Rightarrow> real)
     \<Rightarrow> 'p geometry area_row list option
     \<Rightarrow> 'p geometry area_row list \<Rightarrow> nat
     \<Rightarrow> py_error + 'p geom_object area_row list option" where
  "global_regions simplify pygeos_area level0_file level_x assigned_level =
     (case level0_file of
        None \<Rightarrow> Inr None
      | Some level0 \<Rightarrow>
          (if level_x = [] then Inl ValueError
           else case apply_rows (\<lambda>x. remove_tiny_shapes_read pygeos_area x False) level_x of
             Inl e \<Rightarrow> Inl e
           | Inr gs \<Rightarrow>
               (let level_x' =
                      map (\<lambda>(x, g). \<lparr>GID_0 = GID_0 x, GID_N = GID_N x, TYPE_1 = TYPE_1 x,
                                      geometry = Pygeos (case g of None \<Rightarrow> NoGeometry
                                                         | Some g' \<Rightarrow> simplify g')\<rparr>)
                          (zip level_x gs);
                    missing = get_missing_countries level0 level_x';
                    mis_country =
                      map (\<lambda>r. \<lparr>GID_0 = GID_0 r, GID_N = GID_N r, TYPE_1 = TYPE_1 r,
                                 geometry = Shapely (geometry r)\<rparr>)
                          (filter (\<lambda>r. GID_0 r \<in> set missing) level0);
                    mis_country' = map (assign_missing assigned_level) mis_country
                in Inr (Some (level_x' @ mis_country')))))"

section \<open>clip_osm_osmconvert and clip_osm_osmosis\<close>

text \<open>
  The state around a clip: the paths that exist, the commands handed to \<open>os.system\<close>
  in order, and the lines printed. What a command does to the file system is the
  parameter \<open>backend\<close>.
\<close>

record sys_state =
  existing :: "string set"
  commands :: "string list"
  console :: "string list"

definition clip_osm_osmconvert :: "(string \<Rightarrow> string set \<Rightarrow> string set)
    \<Rightarrow> string \<Rightarrow> string \<Rightarrow> string \<Rightarrow> string \<Rightarrow> sys_state \<Rightarrow> sys_state" where
  "clip_osm_osmconvert backend data_path planet_path area_poly area_pbf st =
     (let st1 = st\<lparr>console := console st @ [area_pbf @ '' started!'']\<rparr>;
          osm_convert_path = ''osmconvert64-0.8.8p'';
          cmd = osm_convert_path @ ''  '' @ planet_path @ '' -B='' @ area_poly
                @ '' --complete-ways -o='' @ area_pbf;
          st2 = (if \<not> (area_pbf \<in> existing st1)
                 then st1\<lparr>existing := backend cmd (existing st1),
                          commands := commands st1 @ [cmd]\<rparr>
                 else st1)
      in st2\<lparr>console := console st2 @ [area_pbf @ '' finished!'']\<rparr>)"

text \<open>The osmosis variant formats the function object \<open>planet_osm\<close> into its command
  instead of \<open>planet_path\<close>; its text is the parameter \<open>planet_osm_repr\<close>.\<close>

definition clip_osm_osmosis :: "(string \<Rightarrow> string set \<Rightarrow> string set) \<Rightarrow> string
    \<Rightarrow> string \<Rightarrow> string \<Rightarrow> string \<Rightarrow> string \<Rightarrow> sys_state \<Rightarrow> sys_state" where
  "clip_osm_osmosis backend planet_osm_repr data_path planet_path area_poly area_pbf st =
     (let st1 = st\<lparr>console := console st @ [area_pbf @ '' started!'']\<rparr>;
          osmosis_convert_path = ''osmosis'';
          cmd = osmosis_convert_path @ '' --read-xml file='' @ [CHR 0x22] @ planet_osm_repr
                @ [CHR 0x22] @ '' --bounding-polygon file='' @ [CHR 0x22] @ area_poly
                @ [CHR 0x22] @ '' --write-xml file='' @ [CHR 0x22] @ area_pbf @ [CHR 0x22];
          st2 = (if \<not> (area_pbf \<in> existing st1)
                 then st1\<lparr>existing := backend cmd (existing st1),
                          commands := commands st1 @ [cmd]\<rparr>
                 else st1)
      in st2\<lparr>console := console st2 @ [area_pbf @ '' finished!'']\<rparr>)"

section \<open>The boundary artifact as text\<close>

text \<open>
  The text that the writer produces, in closed form: the line of a vertex, the block of
  a ring (its index, its vertices, \<open>END\<close>) and the whole artifact (the label, the
  blocks numbered from 0, \<open>END\<close>).
\<close>

definition vertex_text :: "'c libs \<Rightarrow> 'c \<times> 'c \<Rightarrow> string" where
  "vertex_text L v = ''    '' @ str_float L (fst v) @ ''     '' @ str_float L (snd v)"

definition vertex_line :: "'c libs \<Rightarrow> 'c \<times> 'c \<Rightarrow> string" where
  "vertex_line L v = vertex_text L v @ [CHR 0x0A]"

definition ring_lines :: "'c libs \<Rightarrow> nat \<Rightarrow> ('c \<times> 'c) ring \<Rightarrow> string list" where
  "ring_lines L i r = str_nat i # map (vertex_text L) r @ [''END'']"

definition ring_block :: "'c libs \<Rightarrow> nat \<Rightarrow> ('c \<times> 'c) ring \<Rightarrow> string" where
  "ring_block L i r = str_nat i @ [CHR 0x0A] @ concat (map (vertex_line L) r) @ ''END'' @ [CHR 0x0A]"

definition artifact_lines :: "'c libs \<Rightarrow> string \<Rightarrow> ('c \<times> 'c) ring list \<Rightarrow> string list" where
  "artifact_lines L attr rs =
     attr # concat (map (\<lambda>(k, r). ring_lines L k r) (enumerate 0 rs)) @ [''END'']"

definition artifact_text :: "'c libs \<Rightarrow> string \<Rightarrow> ('c \<times> 'c) ring list \<Rightarrow> string" where
  "artifact_text L attr rs =
     attr @ [CHR 0x0A] @ concat (map (\<lambda>(k, r). ring_block L k r) (enumerate 0 rs))
       @ ''END'' @ [CHR 0x0A]"

text \<open>The rule of lines 298 to 307: whether a ring of a row with country code \<open>ctry\<close>
  is skipped.\<close>

definition excluded :: "'c libs \<Rightarrow> string \<Rightarrow> ('c \<times> 'c) ring \<Rightarrow> bool" where
  "excluded L ctry p =
     ((ctry = ''CAN'' \<and> geodesic_km L (prod.swap (centroid L p)) (83.24, - 79.80) < 2000) \<or>
      (ctry = ''RUS'' \<and> geodesic_km L (prod.swap (centroid L p)) (58.89, 82.26) < 500))"

text \<open>The rings that a geometry assigns to \<open>polygons\<close>, and the code that names the
  artifact of a row (lines 274 to 286).\<close>

definition rings_of :: "'p geometry \<Rightarrow> 'p ring list option" where
  "rings_of g = (case g of MultiPolygon gs \<Rightarrow> Some gs | Polygon r \<Rightarrow> Some [r]
                 | _ \<Rightarrow> None)"

definition attr_of :: "bool \<Rightarrow> 'g area_row \<Rightarrow> string option" where
  "attr_of regionalized f = (if regionalized then GID_N f 1 else Some (GID_0 f))"

section \<open>A reader of the boundary format\<close>

text \<open>
  Modelled from the spec: the repository has no reader of its artifacts (the clipping
  tools read them); this one follows section 6 of the specification. The first line is
  the label; each ring is introduced by a line holding its index, followed by one line
  per vertex with two columns separated and padded by blanks, and closed by a line
  \<open>END\<close>; a last line \<open>END\<close> closes the artifact. Lines end with a newline.
  Coordinates are returned as the tokens read.
\<close>

fun lines_of :: "string \<Rightarrow> string \<Rightarrow> string list" where
  "lines_of cur [] = (if cur = [] then [] else [cur])"
| "lines_of cur (c # cs) =
     (if c = CHR 0x0A then cur # lines_of [] cs else lines_of (cur @ [c]) cs)"

fun words_of :: "string \<Rightarrow> string \<Rightarrow> string list" where
  "words_of cur [] = (if cur = [] then [] else [cur])"
| "words_of cur (c # cs) =
     (if c = CHR '' '' then (if cur = [] then words_of [] cs else cur # words_of [] cs)
      else words_of (cur @ [c]) cs)"

definition parse_vertex :: "string \<Rightarrow> (string \<times> string) option" where
  "parse_vertex l = (case words_of [] l of [a, b] \<Rightarrow> Some (a, b) | _ \<Rightarrow> None)"

type_synonym parsed_ring = "string \<times> (string \<times> string) list"

datatype parse_state =
    Between "parsed_ring list"
  | Inside string "(string \<times> string) list" "parsed_ring list"
  | Finished "parsed_ring list"
  | Failed

fun parse_step :: "parse_state \<Rightarrow> string \<Rightarrow> parse_state" where
  "parse_step (Between rs) l = (if l = ''END'' then Finished rs else Inside l [] rs)"
| "parse_step (Inside idx vs rs) l =
     (if l = ''END'' then Between (rs @ [(idx, vs)])
      else case parse_vertex l of
             None \<Rightarrow> Failed
           | Some v \<Rightarrow> Inside idx (vs @ [v]) rs)"
| "parse_step (Finished rs) l = Failed"
| "parse_step Failed l = Failed"

definition parse_poly :: "string \<Rightarrow> (string \<times> parsed_ring list) option" where
  "parse_poly text =
     (case lines_of [] text of
        [] \<Rightarrow> None
      | label # ls \<Rightarrow>
          (case foldl parse_step (Between []) ls of
             Finished rs \<Rightarrow> Some (label, rs)
           | _ \<Rightarrow> None))"

text \<open>A coordinate text that the reader can take as one column: not empty, without
  blank and without newline.\<close>

definition token_ok :: "string \<Rightarrow> bool" where
  "token_ok t = (t \<noteq> [] \<and> CHR '' '' \<notin> set t \<and> CHR 0x0A \<notin> set t)"

definition ring_ok :: "'c libs \<Rightarrow> ('c \<times> 'c) ring \<Rightarrow> bool" where
  "ring_ok L r = list_all (\<lambda>v. token_ok (str_float L (fst v)) \<and> token_ok (str_float L (snd v))) r"

definition vertex_tokens :: "'c libs \<Rightarrow> ('c \<times> 'c) ring \<Rightarrow> (string \<times> string) list" where
  "vertex_tokens L r = map (\<lambda>v. (str_float L (fst v), str_float L (snd v))) r"

section \<open>Sample inputs\<close>

text \<open>
  An instance of the library's area for the closed examples: the planar area of a
  polygon without holes is the absolute value of the signed (shoelace) area of its
  exterior ring, that of a multipolygon the sum over its polygons, in exact arithmetic.
  The library computes the same in doubles; the areas of the examples stay away from
  every bound they are compared with by far more than the rounding of doubles.
\<close>

fun shoelace :: "(real \<times> real) ring \<Rightarrow> real" where
  "shoelace (p # q # ps) = (fst p * snd q - fst q * snd p) + shoelace (q # ps)"
| "shoelace ps = 0"

definition ring_area :: "(real \<times> real) ring \<Rightarrow> real" where
  "ring_area r = \<bar>shoelace r\<bar> / 2"

fun planar_area :: "(real \<times> real) geometry \<Rightarrow> real" where
  "planar_area (Polygon r) = ring_area r"
| "planar_area (MultiPolygon rs) = sum_list (map ring_area rs)"
| "planar_area OtherGeometry = 0"
| "planar_area NoGeometry = 0"

text \<open>Axis-parallel rectangles, closed rings in the order the libraries store them, and
  rows of a country table.\<close>

definition rect :: "real \<Rightarrow> real \<Rightarrow> real \<Rightarrow> real \<Rightarrow> (real \<times> real) ring" where
  "rect x0 y0 w h = [(x0, y0), (x0 + w, y0), (x0 + w, y0 + h), (x0, y0 + h), (x0, y0)]"

definition country_row :: "string \<Rightarrow> 'g \<Rightarrow> 'g area_row" where
  "country_row gid g = \<lparr>GID_0 = gid, GID_N = Map.empty, TYPE_1 = [], geometry = g\<rparr>"

definition three_rings :: "(real \<times> real) ring list" where
  "three_rings = [rect 0 0 0.05 1, rect 1 0 0.2 1, rect 2 0 5 10]"

definition four_rings :: "(real \<times> real) ring list" where
  "four_rings = [rect 0 0 0.05 1, rect 1 0 0.2 1, rect 2 0 5 10, rect 10 0 24.975 10]"

text \<open>Twelve rectangles of 0.09 by 0.1, each of area 0.009, side by side.\<close>

definition twelve_rings :: "(real \<times> real) ring list" where
  "twelve_rings =
     [rect 0 0 0.09 0.1, rect 1 0 0.09 0.1, rect 2 0 0.09 0.1, rect 3 0 0.09 0.1,
      rect 4 0 0.09 0.1, rect 5 0 0.09 0.1, rect 6 0 0.09 0.1, rect 7 0 0.09 0.1,
      rect 8 0 0.09 0.1, rect 9 0 0.09 0.1, rect 10 0 0.09 0.1, rect 11 0 0.09 0.1]"

text \<open>
  Rings with whole-number coordinates, and an instance of the library calls for them,
  used in the closed examples only: the text of a whole-number float (\<open>str(-80.0)\<close> is
  \<open>-80.0\<close>), the centre of the bounding box (the centroid of a rectangle) and a
  coarse distance of 111 km per degree along each axis. On the rings of the examples it
  decides as the libraries do: the ring around (83 N, 80 W) is some tens of kilometres
  from the Canadian reference point, the others are thousands of kilometres away.
\<close>

definition str_int :: "int \<Rightarrow> string" where
  "str_int k = (if k < 0 then CHR ''-'' # str_nat (nat (- k)) else str_nat (nat k))"

definition box_centre :: "(int \<times> int) ring \<Rightarrow> real \<times> real" where
  "box_centre r =
     (case r of
        [] \<Rightarrow> (0, 0)
      | v # vs \<Rightarrow>
          ((real_of_int (fold min (map fst vs) (fst v)) + real_of_int (fold max (map fst vs) (fst v))) / 2,
           (real_of_int (fold min (map snd vs) (snd v)) + real_of_int (fold max (map snd vs) (snd v))) / 2))"

definition grid_km :: "real \<times> real \<Rightarrow> real \<times> real \<Rightarrow> real" where
  "grid_km p q = 111 * (\<bar>fst p - fst q\<bar> + \<bar>snd p - snd q\<bar>)"

definition sample_libs :: "int libs" where
  "sample_libs = \<lparr>centroid = box_centre, geodesic_km = grid_km,
                   str_float = (\<lambda>k. str_int k @ ''.0'')\<rparr>"

definition box :: "int \<Rightarrow> int \<Rightarrow> int \<Rightarrow> int \<Rightarrow> (int \<times> int) ring" where
  "box x0 y0 w h = [(x0, y0), (x0 + w, y0), (x0 + w, y0 + h), (x0, y0 + h), (x0, y0)]"

definition region_row :: "string \<Rightarrow> string \<Rightarrow> 'g \<Rightarrow> 'g area_row" where
  "region_row gid0 gid1 g = \<lparr>GID_0 = gid0, GID_N = [1 \<mapsto> gid1], TYPE_1 = ''Province'', geometry = g\<rparr>"

definition can_region :: "(int \<times> int) geometry area_row" where
  "can_region = region_row ''CAN'' ''CAN.8_1'' (MultiPolygon [box (- 81) 82 2 2, box (- 80) 43 2 1])"

definition can_country :: "(int \<times> int) geometry area_row" where
  "can_country = country_row ''CAN'' (MultiPolygon [box (- 81) 82 2 2, box (- 80) 43 2 1])"

definition level2_row :: "(int \<times> int) geometry area_row" where
  "level2_row = \<lparr>GID_0 = ''NLD'', GID_N = [1 \<mapsto> ''NLD.1_1'', 2 \<mapsto> ''NLD.1.1_1''],
                  TYPE_1 = ''Provincie'', geometry = Polygon (box 5 52 1 1)\<rparr>"

text \<open>A backend that creates the requested extract.\<close>

definition writes_output :: "string \<Rightarrow> string set \<Rightarrow> string set" where
  "writes_output cmd paths = insert ''out/NLD.osm.pbf'' paths"

section \<open>Facts about remove_tiny_shapes\<close>

lemmas sample_defs = rect_def country_row_def three_rings_def four_rings_def twelve_rings_def

lemmas float_defs = float_0_1_def float_0_01_def float_0_001_def

lemmas writer_defs = sample_libs_def box_def box_centre_def grid_km_def str_int_def
  region_row_def country_row_def can_region_def can_country_def start_def

lemma float_literals:
  "0.1 < float_0_1 \<and> float_0_1 < 0.1 + 1 / 10 ^ 17 \<and>
   0.01 < float_0_01 \<and> float_0_01 < 0.01 + 1 / 10 ^ 18 \<and>
   0.001 < float_0_001 \<and> float_0_001 < 0.001 + 1 / 10 ^ 19"
  by (simp add: float_defs)

lemma keep_loop_filter:
  "keep_loop A t gs acc = acc @ filter (\<lambda>g. t < A (Polygon g)) gs"
  by (induction gs arbitrary: acc) simp_all

text \<open>
  C3. remove_tiny_shapes returns the geometry unchanged when it is a single polygon, and
  when it is a multipolygon whose total area is below area1, the double of 0.1 by
  default and of 0.01 when regionalized; in particular when the area is below the
  decimal value itself.
\<close>

theorem remove_tiny_shapes_identity:
  "(geometry x = Polygon r \<longrightarrow>
      remove_tiny_shapes A x regionalized = Inr (Some (geometry x))) \<and>
   (geometry x = MultiPolygon gs \<and> A (geometry x) < fst (area_bounds regionalized)
      \<longrightarrow> remove_tiny_shapes A x regionalized = Inr (Some (geometry x))) \<and>
   (geometry x = MultiPolygon gs \<and> A (geometry x) < (if regionalized then 0.01 else 0.1)
      \<longrightarrow> remove_tiny_shapes A x regionalized = Inr (Some (geometry x))) \<and>
   area_bounds False = (float_0_1, 250) \<and> area_bounds True = (float_0_01, 50) \<and>
   0.1 < float_0_1 \<and> float_0_1 < 0.1 + 1 / 10 ^ 17 \<and>
   0.01 < float_0_01 \<and> float_0_01 < 0.01 + 1 / 10 ^ 18"
proof -
  have lo: "(if regionalized then 0.01 else 0.1) < fst (area_bounds regionalized)"
    using float_literals by (simp add: area_bounds_def)
  have small: "geometry x = MultiPolygon gs \<and> A (geometry x) < fst (area_bounds regionalized)
      \<longrightarrow> remove_tiny_shapes A x regionalized = Inr (Some (geometry x))"
    by (auto simp add: remove_tiny_shapes_def split: prod.splits)
  have "geometry x = MultiPolygon gs \<and> A (geometry x) < (if regionalized then 0.01 else 0.1)
      \<longrightarrow> A (geometry x) < fst (area_bounds regionalized)"
    using lo by auto
  with small have dec: "geometry x = MultiPolygon gs \<and>
      A (geometry x) < (if regionalized then 0.01 else 0.1)
      \<longrightarrow> remove_tiny_shapes A x regionalized = Inr (Some (geometry x))"
    by blast
  have pol: "geometry x = Polygon r \<longrightarrow>
      remove_tiny_shapes A x regionalized = Inr (Some (geometry x))"
    by (simp add: remove_tiny_shapes_def)
  show ?thesis
    using pol small dec float_literals by (simp add: area_bounds_def)
qed

theorem remove_tiny_shapes_identity_witness:
  "remove_tiny_shapes planar_area (country_row ''MCO'' (Polygon (rect 0 0 0.05 1))) False =
     Inr (Some (Polygon (rect 0 0 0.05 1))) \<and>
   remove_tiny_shapes planar_area
       (country_row ''IDN'' (MultiPolygon [rect 0 0 0.05 1, rect 1 0 0.04 1])) False =
     Inr (Some (MultiPolygon [rect 0 0 0.05 1, rect 1 0 0.04 1])) \<and>
   remove_tiny_shapes planar_area
       (country_row ''IDN'' (MultiPolygon [rect 0 0 0.005 1, rect 1 0 0.004 1])) True =
     Inr (Some (MultiPolygon [rect 0 0 0.005 1, rect 1 0 0.004 1]))"
  using remove_tiny_shapes_identity
      [of "country_row ''MCO'' (Polygon (rect 0 0 0.05 1))" "rect 0 0 0.05 1" planar_area False]
    remove_tiny_shapes_identity
      [of "country_row ''IDN'' (MultiPolygon [rect 0 0 0.05 1, rect 1 0 0.04 1])" _ planar_area
          False "[rect 0 0 0.05 1, rect 1 0 0.04 1]"]
    remove_tiny_shapes_identity
      [of "country_row ''IDN'' (MultiPolygon [rect 0 0 0.005 1, rect 1 0 0.004 1])" _ planar_area
          True "[rect 0 0 0.005 1, rect 1 0 0.004 1]"]
  by (simp add: sample_defs ring_area_def)

text \<open>
  C1. For a multipolygon whose total area is not below area1, with (area1, area2) =
  (0.1, 250) by default and (0.01, 50) when regionalized, the threshold selected follows
  the decision table: 0.01 for CHL and IDN; 0.01 for RUS, GRL, CAN and USA, whatever the
  flag; otherwise 0.1 when the total area exceeds area2, and 0.001 when it does not; the
  float literals are the doubles nearest to these decimals. The rings above the
  threshold are handed to the multipolygon constructor, which raises when there is none.
\<close>

theorem threshold_decision_table:
  assumes "geometry x = MultiPolygon gs"
    and "\<not> A (geometry x) < fst (area_bounds regionalized)"
  shows "area_bounds regionalized = (if regionalized then (float_0_01, 50) else (float_0_1, 250)) \<and>
    (\<exists>t. t = (if GID_0 x \<in> {''CHL'', ''IDN''} then float_0_01
              else if GID_0 x \<in> {''RUS'', ''GRL'', ''CAN'', ''USA''} then float_0_01
              else if A (geometry x) > snd (area_bounds regionalized) then float_0_1
              else float_0_001) \<and>
         threshold (GID_0 x) regionalized (A (geometry x)) (snd (area_bounds regionalized)) = t \<and>
         remove_tiny_shapes A x regionalized =
           (if filter (\<lambda>g. t < A (Polygon g)) gs = [] then Inl ValueError
            else Inr (Some (MultiPolygon (filter (\<lambda>g. t < A (Polygon g)) gs))))) \<and>
    0.1 < float_0_1 \<and> float_0_1 < 0.1 + 1 / 10 ^ 17 \<and>
    0.01 < float_0_01 \<and> float_0_01 < 0.01 + 1 / 10 ^ 18 \<and>
    0.001 < float_0_001 \<and> float_0_001 < 0.001 + 1 / 10 ^ 19"
proof -
  let ?t = "threshold (GID_0 x) regionalized (A (geometry x)) (snd (area_bounds regionalized))"
  have b: "area_bounds regionalized = (if regionalized then (float_0_01, 50) else (float_0_1, 250))"
    by (simp add: area_bounds_def)
  have t: "?t =
        (if GID_0 x \<in> {''CHL'', ''IDN''} then float_0_01
         else if GID_0 x \<in> {''RUS'', ''GRL'', ''CAN'', ''USA''} then float_0_01
         else if A (geometry x) > snd (area_bounds regionalized) then float_0_1
         else float_0_001)"
    by (simp add: threshold_def)
  have r: "remove_tiny_shapes A x regionalized =
      (if filter (\<lambda>g. ?t < A (Polygon g)) gs = [] then Inl ValueError
       else Inr (Some (MultiPolygon (filter (\<lambda>g. ?t < A (Polygon g)) gs))))"
    using assms
    by (auto simp add: remove_tiny_shapes_def multipolygons_def keep_loop_filter
          split: prod.splits)
  have ex: "\<exists>t. t = (if GID_0 x \<in> {''CHL'', ''IDN''} then float_0_01
              else if GID_0 x \<in> {''RUS'', ''GRL'', ''CAN'', ''USA''} then float_0_01
              else if A (geometry x) > snd (area_bounds regionalized) then float_0_1
              else float_0_001) \<and>
         threshold (GID_0 x) regionalized (A (geometry x)) (snd (area_bounds regionalized)) = t \<and>
         remove_tiny_shapes A x regionalized =
           (if filter (\<lambda>g. t < A (Polygon g)) gs = [] then Inl ValueError
            else Inr (Some (MultiPolygon (filter (\<lambda>g. t < A (Polygon g)) gs))))"
    by (intro exI [of _ ?t] conjI t refl r)
  show ?thesis
    apply (rule conjI [OF b])
    apply (rule conjI [OF ex])
    apply (rule float_literals)
    done
qed

theorem threshold_decision_table_witness:
  "remove_tiny_shapes planar_area (country_row ''USA'' (MultiPolygon three_rings)) True =
     Inr (Some (MultiPolygon [rect 0 0 0.05 1, rect 1 0 0.2 1, rect 2 0 5 10])) \<and>
   remove_tiny_shapes planar_area (country_row ''FRA'' (MultiPolygon four_rings)) False =
     Inr (Some (MultiPolygon [rect 1 0 0.2 1, rect 2 0 5 10, rect 10 0 24.975 10]))"
  using threshold_decision_table [of "country_row ''USA'' (MultiPolygon three_rings)" three_rings
      planar_area True]
    threshold_decision_table [of "country_row ''FRA'' (MultiPolygon four_rings)" four_rings
      planar_area False]
  by (simp add: sample_defs area_bounds_def float_defs ring_area_def)

text \<open>
  C2 fails on the code where no ring survives. Twelve rings of area 0.009 in a
  multipolygon of IDN make a total area of 0.108, not below area1 = 0.1; the threshold
  is 0.01 and no ring is above it; the kept list is empty and the multipolygon
  constructor raises a ValueError, where the claim has an empty multipolygon returned.
\<close>

theorem empty_result_raises:
  "map ring_area twelve_rings = replicate 12 0.009 \<and>
   planar_area (MultiPolygon twelve_rings) = 0.108 \<and>
   remove_tiny_shapes planar_area (country_row ''IDN'' (MultiPolygon twelve_rings)) False =
     Inl ValueError"
  by (simp add: sample_defs remove_tiny_shapes_def multipolygons_def area_bounds_def
        threshold_def float_defs ring_area_def numeral_eq_Suc)

section \<open>Facts about the boundary writer\<close>

lemma vertex_loop_concat:
  "vertex_loop L vs f = f @ concat (map (vertex_line L) vs)"
  by (induction vs arbitrary: f) (simp_all add: vertex_line_def vertex_text_def)

lemma ring_loop_skip:
  "excluded L ctry p \<Longrightarrow>
   ring_loop L ctry attr (p # ps) (i, f, out) =
   ring_loop L ctry attr ps (i, f, out @ (if ctry = ''RUS'' then [attr] else []))"
  by (auto simp add: excluded_def)

lemma ring_loop_write:
  "\<not> excluded L ctry p \<Longrightarrow>
   ring_loop L ctry attr (p # ps) (i, f, out) =
   ring_loop L ctry attr ps (Suc i, f @ ring_block L i p, out)"
  by (auto simp add: excluded_def ring_block_def vertex_loop_concat)

lemma ring_loop_closed:
  "ring_loop L ctry attr ps (i, f, out) =
     (i + length (filter (\<lambda>p. \<not> excluded L ctry p) ps),
      f @ concat (map (\<lambda>(k, r). ring_block L k r)
                   (enumerate i (filter (\<lambda>p. \<not> excluded L ctry p) ps))),
      out @ concat (map (\<lambda>p. if ctry = ''RUS'' \<and> excluded L ctry p then [attr] else []) ps))"
proof (induction ps arbitrary: i f out)
  case Nil
  then show ?case by simp
next
  case (Cons p ps)
  show ?case
  proof (cases "excluded L ctry p")
    case True
    then have "ring_loop L ctry attr (p # ps) (i, f, out) =
        ring_loop L ctry attr ps (i, f, out @ (if ctry = ''RUS'' then [attr] else []))"
      by (rule ring_loop_skip)
    with True show ?thesis
      by (simp add: Cons.IH del: ring_loop.simps)
  next
    case False
    then have "ring_loop L ctry attr (p # ps) (i, f, out) =
        ring_loop L ctry attr ps (Suc i, f @ ring_block L i p, out)"
      by (rule ring_loop_write)
    with False show ?thesis
      by (simp add: Cons.IH del: ring_loop.simps)
  qed
qed

lemma lines_of_line:
  "CHR 0x0A \<notin> set l \<Longrightarrow> lines_of cur (l @ CHR 0x0A # rest) = (cur @ l) # lines_of [] rest"
  by (induction l arbitrary: cur) auto

lemma lines_of_concat:
  "\<forall>l \<in> set ls. CHR 0x0A \<notin> set l \<Longrightarrow>
   lines_of [] (concat (map (\<lambda>l. l @ [CHR 0x0A]) ls)) = ls"
  by (induction ls) (simp_all add: lines_of_line)

lemma words_of_word:
  "CHR '' '' \<notin> set w \<Longrightarrow> cur @ w \<noteq> [] \<Longrightarrow> words_of cur w = [cur @ w]"
  by (induction w arbitrary: cur) auto

lemma words_of_word_space:
  "CHR '' '' \<notin> set w \<Longrightarrow> cur @ w \<noteq> [] \<Longrightarrow>
   words_of cur (w @ CHR '' '' # rest) = (cur @ w) # words_of [] rest"
  by (induction w arbitrary: cur) auto

lemma parse_vertex_line:
  assumes "CHR '' '' \<notin> set a" "a \<noteq> []" "CHR '' '' \<notin> set b" "b \<noteq> []"
  shows "parse_vertex (''    '' @ a @ ''     '' @ b) = Some (a, b)"
proof -
  have "words_of [] (''    '' @ a @ ''     '' @ b) = words_of [] (a @ CHR '' '' # (''    '' @ b))"
    by simp
  also have "\<dots> = a # words_of [] (''    '' @ b)"
    using assms(1,2) words_of_word_space [of a "[]"] by simp
  also have "words_of [] (''    '' @ b) = words_of [] b" by simp
  also have "words_of [] b = [b]"
    using assms(3,4) words_of_word [of b "[]"] by simp
  finally show ?thesis by (simp add: parse_vertex_def)
qed

lemma digit_char_mem: "d < 10 \<Longrightarrow> digit_char d \<in> set ''0123456789''"
  unfolding digit_char_def by (rule nth_mem) simp

lemma str_nat_digits: "set (str_nat n) \<subseteq> set ''0123456789''"
proof (induction n rule: str_nat.induct)
  case (1 n)
  show ?case
  proof (cases "n < 10")
    case True
    then show ?thesis
      using digit_char_mem [of n] by (subst str_nat.simps) simp
  next
    case False
    have "n mod 10 < 10" by simp
    then have "digit_char (n mod 10) \<in> set ''0123456789''" by (rule digit_char_mem)
    with False "1.IH" show ?thesis
      by (subst str_nat.simps) simp
  qed
qed

lemma str_nat_no_newline: "CHR 0x0A \<notin> set (str_nat n)"
  using str_nat_digits [of n] by auto

lemma str_nat_not_END: "str_nat n \<noteq> ''END''"
proof
  assume "str_nat n = ''END''"
  then have "CHR ''E'' \<in> set (str_nat n)" by simp
  with str_nat_digits [of n] show False by auto
qed

lemma ring_block_lines:
  "ring_block L i r = concat (map (\<lambda>l. l @ [CHR 0x0A]) (ring_lines L i r))"
  by (simp add: ring_block_def ring_lines_def vertex_line_def [abs_def] comp_def)

lemma vertex_text_not_END: "vertex_text L v \<noteq> ''END''"
  by (simp add: vertex_text_def)

lemma vertex_text_parse:
  "token_ok (str_float L (fst v)) \<Longrightarrow> token_ok (str_float L (snd v)) \<Longrightarrow>
   parse_vertex (vertex_text L v) = Some (str_float L (fst v), str_float L (snd v))"
  unfolding vertex_text_def token_ok_def by (rule parse_vertex_line) simp_all

lemma vertex_text_no_newline:
  "token_ok (str_float L (fst v)) \<Longrightarrow> token_ok (str_float L (snd v)) \<Longrightarrow>
   CHR 0x0A \<notin> set (vertex_text L v)"
  by (simp add: vertex_text_def token_ok_def)

lemma parse_vertices:
  "ring_ok L r \<Longrightarrow>
   foldl parse_step (Inside idx vs rs) (map (vertex_text L) r) =
   Inside idx (vs @ vertex_tokens L r) rs"
proof (induction r arbitrary: vs)
  case Nil
  then show ?case by (simp add: vertex_tokens_def)
next
  case (Cons v r)
  from Cons.prems have ok: "token_ok (str_float L (fst v))" "token_ok (str_float L (snd v))"
    and rest: "ring_ok L r"
    by (simp_all add: ring_ok_def)
  have "parse_step (Inside idx vs rs) (vertex_text L v) =
        Inside idx (vs @ [(str_float L (fst v), str_float L (snd v))]) rs"
    using vertex_text_parse [OF ok] vertex_text_not_END [of L v] by simp
  then show ?case
    using Cons.IH [OF rest] by (simp add: vertex_tokens_def)
qed

lemma parse_ring_lines:
  assumes "ring_ok L r"
  shows "foldl parse_step (Between rs) (ring_lines L i r) =
         Between (rs @ [(str_nat i, vertex_tokens L r)])"
proof -
  have "foldl parse_step (Between rs) (ring_lines L i r) =
        foldl parse_step (Inside (str_nat i) [] rs) (map (vertex_text L) r @ [''END''])"
    using str_nat_not_END [of i] by (simp add: ring_lines_def)
  also have "\<dots> = parse_step (Inside (str_nat i) (vertex_tokens L r) rs) ''END''"
    using parse_vertices [OF assms, of "str_nat i" "[]" rs] by simp
  finally show ?thesis by simp
qed

lemma ring_lines_no_newline:
  assumes "ring_ok L r"
  shows "\<forall>l \<in> set (ring_lines L i r). CHR 0x0A \<notin> set l"
proof
  fix l assume "l \<in> set (ring_lines L i r)"
  then consider "l = str_nat i" | "l = ''END''" | v where "v \<in> set r" "l = vertex_text L v"
    by (auto simp add: ring_lines_def)
  then show "CHR 0x0A \<notin> set l"
  proof cases
    case 1
    then show ?thesis by (simp add: str_nat_no_newline)
  next
    case 2
    then show ?thesis by simp
  next
    case 3
    from assms 3(1) have "token_ok (str_float L (fst v))" "token_ok (str_float L (snd v))"
      by (simp_all add: ring_ok_def list_all_iff)
    then show ?thesis
      unfolding 3(2) by (rule vertex_text_no_newline)
  qed
qed

lemma parse_blocks:
  "list_all (ring_ok L) rs \<Longrightarrow>
   foldl parse_step (Between acc) (concat (map (\<lambda>(k, r). ring_lines L k r) (enumerate i rs))) =
   Between (acc @ map (\<lambda>(k, r). (str_nat k, vertex_tokens L r)) (enumerate i rs))"
proof (induction rs arbitrary: i acc)
  case Nil
  then show ?case by simp
next
  case (Cons r rs)
  then have ok: "ring_ok L r" and rest: "list_all (ring_ok L) rs" by simp_all
  show ?case
    using parse_ring_lines [OF ok, of acc i] Cons.IH [OF rest]
    by simp
qed

lemma blocks_lines:
  "concat (map (\<lambda>(k, r). ring_block L k r) krs) =
   concat (map (\<lambda>l. l @ [CHR 0x0A]) (concat (map (\<lambda>(k, r). ring_lines L k r) krs)))"
  by (induction krs) (auto simp add: ring_block_lines)

lemma artifact_text_lines:
  "artifact_text L attr rs = concat (map (\<lambda>l. l @ [CHR 0x0A]) (artifact_lines L attr rs))"
  by (simp add: artifact_text_def artifact_lines_def blocks_lines)

lemma blocks_no_newline:
  "list_all (ring_ok L) rs \<Longrightarrow>
   \<forall>l \<in> set (concat (map (\<lambda>(k, r). ring_lines L k r) (enumerate i rs))). CHR 0x0A \<notin> set l"
proof (induction rs arbitrary: i)
  case Nil
  then show ?case by simp
next
  case (Cons r rs)
  then have ok: "ring_ok L r" and rest: "list_all (ring_ok L) rs" by simp_all
  show ?case
    using ring_lines_no_newline [OF ok, of i] Cons.IH [OF rest, of "Suc i"]
    by auto
qed

lemma parse_artifact_text:
  assumes attr: "CHR 0x0A \<notin> set attr" and ok: "list_all (ring_ok L) rs"
  shows "parse_poly (artifact_text L attr rs) =
         Some (attr, map (\<lambda>(k, r). (str_nat k, vertex_tokens L r)) (enumerate 0 rs))"
proof -
  have "\<forall>l \<in> set (artifact_lines L attr rs). CHR 0x0A \<notin> set l"
    using attr blocks_no_newline [OF ok, of 0] by (auto simp add: artifact_lines_def)
  then have "lines_of [] (artifact_text L attr rs) = artifact_lines L attr rs"
    unfolding artifact_text_lines by (rule lines_of_concat)
  moreover have "foldl parse_step (Between [])
        (concat (map (\<lambda>(k, r). ring_lines L k r) (enumerate 0 rs)) @ [''END'']) =
      Finished (map (\<lambda>(k, r). (str_nat k, vertex_tokens L r)) (enumerate 0 rs))"
    using parse_blocks [OF ok, of "[]" 0] by simp
  ultimately show ?thesis
    by (simp add: parse_poly_def artifact_lines_def)
qed

lemma row_step_artifact:
  assumes "rings_of (geometry f) = Some ps" and "attr_of regionalized f = Some attr"
  shows "row_step L poly_dir regionalized f st =
     Done (st\<lparr>num := num st + 1, polygons := Some ps,
              files := (files st)(poly_dir @ ''/'' @ attr @ ''.poly'' \<mapsto>
                 artifact_text L attr (filter (\<lambda>p. \<not> excluded L (GID_0 f) p) ps)),
              printed := printed st @ concat (map (\<lambda>p. if GID_0 f = ''RUS'' \<and> excluded L (GID_0 f) p
                                                       then [attr] else []) ps)\<rparr>)"
  using assms
  by (auto simp add: row_step_def rings_of_def attr_of_def Let_def ring_loop_closed
        artifact_text_def split: geometry.splits)

lemma str_nat_small: "n < 10 \<Longrightarrow> str_nat n = [digit_char n]"
  by (subst str_nat.simps) simp

lemma str_nat_0: "str_nat 0 = ''0''"
  by (subst str_nat.simps) (simp add: digit_char_def)

lemma str_nat_1: "str_nat (Suc 0) = ''1''"
  by (subst str_nat.simps) (simp add: digit_char_def)

lemma enumerate_nth_map:
  "map f (enumerate i rs) = map (\<lambda>k. f (i + k, rs ! k)) [0..<length rs]"
  by (rule nth_equalityI) (simp_all add: nth_enumerate_eq)

lemma enumerate_map_snd: "map (\<lambda>(k, r). h r) (enumerate i rs) = map h rs"
  by (induction rs arbitrary: i) simp_all

lemma row_step_Done_files:
  "row_step L poly_dir regionalized f st = Done st' \<Longrightarrow>
   \<exists>attr text. attr_of regionalized f = Some attr \<and>
      files st' = (files st)(poly_dir @ ''/'' @ attr @ ''.poly'' \<mapsto> text)"
  by (auto simp add: row_step_def attr_of_def Let_def
           split: option.splits prod.splits if_splits)

lemma rows_loop_dom:
  "rows_loop L poly_dir regionalized rows st = Done st' \<Longrightarrow>
   dom (files st') = dom (files st) \<union>
     {p. \<exists>r \<in> set rows. \<exists>attr. attr_of regionalized r = Some attr \<and>
            p = poly_dir @ ''/'' @ attr @ ''.poly''}"
proof (induction rows arbitrary: st)
  case Nil
  then show ?case by simp
next
  case (Cons f rows)
  from Cons.prems obtain st1 where
    step: "row_step L poly_dir regionalized f st = Done st1" and
    rest: "rows_loop L poly_dir regionalized rows st1 = Done st'"
    by (auto split: outcome.splits)
  from row_step_Done_files [OF step] obtain attr body where
    a: "attr_of regionalized f = Some attr" and
    fs: "files st1 = (files st)(poly_dir @ ''/'' @ attr @ ''.poly'' \<mapsto> body)"
    by blast
  show ?case
    unfolding Cons.IH [OF rest] fs using a by auto
qed

lemma apply_rows_read_raises:
  "\<exists>x \<in> set level_x. geometry x \<noteq> NoGeometry \<Longrightarrow>
   apply_rows (\<lambda>x. remove_tiny_shapes_read A x flag) level_x = Inl TypeError"
proof (induction level_x)
  case Nil
  then show ?case by simp
next
  case (Cons x level_x)
  show ?case
  proof (cases "geometry x = NoGeometry")
    case True
    with Cons.prems have "\<exists>x \<in> set level_x. geometry x \<noteq> NoGeometry" by auto
    from Cons.IH [OF this] True show ?thesis
      by (simp add: remove_tiny_shapes_read_def remove_tiny_shapes_def)
  next
    case False
    then show ?thesis by (simp add: remove_tiny_shapes_read_def)
  qed
qed

lemma global_regions_raises:
  "global_regions simplify A (Some level0) [] l = Inl ValueError"
  "\<exists>x \<in> set level_x. geometry x \<noteq> NoGeometry \<Longrightarrow>
   global_regions simplify A (Some level0) level_x l = Inl TypeError"
  by (auto simp add: global_regions_def apply_rows_read_raises)

lemma missing_code_pattern:
  "1 \<le> l \<Longrightarrow> l \<le> 5 \<Longrightarrow>
   missing_code l gid0 = Some (gid0 @ concat (replicate l ''.0'') @ ''_1'')"
proof -
  assume "1 \<le> l" "l \<le> 5"
  then consider "l = 1" | "l = 2" | "l = 3" | "l = 4" | "l = 5" by linarith
  then show ?thesis
    by cases (simp_all add: missing_code_def str_nat_0 str_nat_1 numeral_eq_Suc)
qed

lemma row_step_Done_artifact:
  assumes "row_step L poly_dir regionalized f st = Done st'"
  shows "\<exists>attr ps. attr_of regionalized f = Some attr \<and> polygons st' = Some ps \<and>
     (case rings_of (geometry f) of Some gs \<Rightarrow> ps = gs | None \<Rightarrow> polygons st = Some ps) \<and>
     st' = st\<lparr>num := num st + 1, polygons := Some ps,
              files := (files st)(poly_dir @ ''/'' @ attr @ ''.poly'' \<mapsto>
                 artifact_text L attr (filter (\<lambda>p. \<not> excluded L (GID_0 f) p) ps)),
              printed := printed st @ concat (map (\<lambda>p. if GID_0 f = ''RUS'' \<and> excluded L (GID_0 f) p
                                                       then [attr] else []) ps)\<rparr>"
  using assms
  by (auto simp add: row_step_def rings_of_def attr_of_def Let_def ring_loop_closed
        artifact_text_def split: geometry.splits option.splits if_splits)

section \<open>The claims about the boundary writer\<close>

text \<open>
  C4, as the code has it. The centroid-distance rule of poly_files is keyed on the
  country code GID_0 of the row, not on the code that names the artifact, and so it
  applies to every artifact of that country, country-level and region-level alike: for
  CAN a ring whose centroid is less than 2000 km from (83.24 N, 79.80 W) is skipped and a
  ring at 2000 km or more is written; for RUS the same with (58.89 N, 82.26 E) and
  500 km; rows of any other country have no exclusion.
\<close>

theorem exclusion_by_country_code:
  assumes "rings_of (geometry f) = Some ps" and "attr_of regionalized f = Some attr"
  shows "\<exists>st'. row_step L poly_dir regionalized f st = Done st' \<and>
     files st' (poly_dir @ ''/'' @ attr @ ''.poly'') =
       Some (artifact_text L attr
         (filter (\<lambda>p.
            \<not> (GID_0 f = ''CAN'' \<and>
               geodesic_km L (prod.swap (centroid L p)) (83.24, - 79.80) < 2000) \<and>
            \<not> (GID_0 f = ''RUS'' \<and>
               geodesic_km L (prod.swap (centroid L p)) (58.89, 82.26) < 500)) ps))"
  using row_step_artifact [OF assms, of L poly_dir st]
  by (simp add: excluded_def)

theorem exclusion_by_country_code_witness:
  "(\<exists>st'. row_step sample_libs ''d'' True can_region (start Map.empty) = Done st' \<and>
      files st' ''d/CAN.8_1.poly'' =
        Some (artifact_text sample_libs ''CAN.8_1'' [box (- 80) 43 2 1])) \<and>
   (\<exists>st'. row_step sample_libs ''d'' False can_country (start Map.empty) = Done st' \<and>
      files st' ''d/CAN.poly'' =
        Some (artifact_text sample_libs ''CAN'' [box (- 80) 43 2 1]))"
  using exclusion_by_country_code [of can_region "[box (- 81) 82 2 2, box (- 80) 43 2 1]"
      True "''CAN.8_1''" sample_libs "''d''" "start Map.empty"]
    exclusion_by_country_code [of can_country "[box (- 81) 82 2 2, box (- 80) 43 2 1]"
      False "''CAN''" sample_libs "''d''" "start Map.empty"]
  by (simp add: writer_defs rings_of_def attr_of_def)

text \<open>
  C4 as the specification words it fails: in a region-level run, the ring of a Canadian
  region near the reference point is skipped, and the artifact holds no ring.
\<close>

theorem region_ring_skipped_counterexample:
  "row_step sample_libs ''d'' True
      (region_row ''CAN'' ''CAN.8_1'' (Polygon (box (- 81) 82 2 2))) (start Map.empty) =
    Done \<lparr>num = 1, polygons = Some [box (- 81) 82 2 2],
          files = [''d/CAN.8_1.poly'' \<mapsto> ''CAN.8_1'' @ [CHR 0x0A] @ ''END'' @ [CHR 0x0A]],
          printed = []\<rparr> \<and>
   geodesic_km sample_libs (prod.swap (centroid sample_libs (box (- 81) 82 2 2)))
      (83.24, - 79.80) < 2000"
  by (simp add: writer_defs row_step_def)

text \<open>
  C10. In an artifact the index lines are 0, 1, ..., n-1 for the n rings written: a
  skipped ring takes no index; and when every ring is skipped the artifact is the label
  line followed by the single line END.
\<close>

theorem ring_indices_consecutive:
  assumes "row_step L poly_dir regionalized f st = Done st'"
  shows "\<exists>attr ps kept. attr_of regionalized f = Some attr \<and> polygons st' = Some ps \<and>
     kept = filter (\<lambda>p. \<not> excluded L (GID_0 f) p) ps \<and>
     fst (ring_loop L (GID_0 f) attr ps (0, attr @ [CHR 0x0A], printed st)) = length kept \<and>
     files st' (poly_dir @ ''/'' @ attr @ ''.poly'') =
       Some (attr @ [CHR 0x0A] @
             concat (map (\<lambda>k. str_nat k @ [CHR 0x0A] @ concat (map (vertex_line L) (kept ! k))
                                @ ''END'' @ [CHR 0x0A]) [0..<length kept]) @
             ''END'' @ [CHR 0x0A]) \<and>
     (kept = [] \<longrightarrow>
        files st' (poly_dir @ ''/'' @ attr @ ''.poly'') =
          Some (attr @ [CHR 0x0A] @ ''END'' @ [CHR 0x0A]))"
proof -
  from row_step_Done_artifact [OF assms] obtain attr ps where
    a: "attr_of regionalized f = Some attr" and p: "polygons st' = Some ps" and
    s: "st' = st\<lparr>num := num st + 1, polygons := Some ps,
              files := (files st)(poly_dir @ ''/'' @ attr @ ''.poly'' \<mapsto>
                 artifact_text L attr (filter (\<lambda>p. \<not> excluded L (GID_0 f) p) ps)),
              printed := printed st @ concat (map (\<lambda>p. if GID_0 f = ''RUS'' \<and> excluded L (GID_0 f) p
                                                       then [attr] else []) ps)\<rparr>"
    by blast
  let ?kept = "filter (\<lambda>p. \<not> excluded L (GID_0 f) p) ps"
  have t: "artifact_text L attr ?kept =
      attr @ [CHR 0x0A] @
      concat (map (\<lambda>k. str_nat k @ [CHR 0x0A] @ concat (map (vertex_line L) (?kept ! k))
                         @ ''END'' @ [CHR 0x0A]) [0..<length ?kept]) @
      ''END'' @ [CHR 0x0A]"
    unfolding artifact_text_def enumerate_nth_map
    by (simp add: ring_block_def)
  have f: "files st' (poly_dir @ ''/'' @ attr @ ''.poly'') = Some (artifact_text L attr ?kept)"
    by (subst s) simp
  show ?thesis
    using a p f t by (auto simp add: ring_loop_closed)
qed

theorem ring_indices_consecutive_witness:
  "\<exists>st'. row_step sample_libs ''d'' False
       (country_row ''CAN'' (MultiPolygon [box (- 80) 43 2 1, box (- 81) 82 2 2, box (- 60) 46 1 1]))
       (start Map.empty) = Done st' \<and>
     files st' ''d/CAN.poly'' =
       Some (''CAN'' @ [CHR 0x0A] @
             ''0'' @ [CHR 0x0A] @ concat (map (vertex_line sample_libs) (box (- 80) 43 2 1))
               @ ''END'' @ [CHR 0x0A] @
             ''1'' @ [CHR 0x0A] @ concat (map (vertex_line sample_libs) (box (- 60) 46 1 1))
               @ ''END'' @ [CHR 0x0A] @
             ''END'' @ [CHR 0x0A])"
proof -
  obtain st' where d: "row_step sample_libs ''d'' False
       (country_row ''CAN'' (MultiPolygon [box (- 80) 43 2 1, box (- 81) 82 2 2, box (- 60) 46 1 1]))
       (start Map.empty) = Done st'"
    by (simp add: row_step_def writer_defs)
  from d have p: "polygons st' = Some [box (- 80) 43 2 1, box (- 81) 82 2 2, box (- 60) 46 1 1]"
    by (auto simp add: row_step_def country_row_def Let_def split: prod.splits)
  from ring_indices_consecutive [OF d] p d show ?thesis
    by (simp add: writer_defs attr_of_def excluded_def str_nat_small digit_char_def
        upt_rec [of 0] upt_rec [of 1])
qed

text \<open>
  C7. Reading a written artifact back gives the label and, ring by ring and in order,
  the vertices that were written, each coordinate as the text that \<open>str\<close> gave it;
  this needs a label without newline and coordinate texts that are single columns.
\<close>

theorem artifact_round_trip:
  assumes "row_step L poly_dir regionalized f st = Done st'"
    and "attr_of regionalized f = Some attr" and "CHR 0x0A \<notin> set attr"
    and "polygons st' = Some ps" and "list_all (ring_ok L) ps"
  shows "\<exists>body kept.
     kept = filter (\<lambda>p. \<not> excluded L (GID_0 f) p) ps \<and>
     files st' (poly_dir @ ''/'' @ attr @ ''.poly'') = Some body \<and>
     body = artifact_text L attr kept \<and>
     map_option (\<lambda>(label, rs). (label, map snd rs)) (parse_poly body) =
       Some (attr, map (vertex_tokens L) kept)"
proof -
  let ?kept = "filter (\<lambda>p. \<not> excluded L (GID_0 f) p) ps"
  have "list_all (ring_ok L) ?kept"
    using assms(5) by (simp add: list_all_iff)
  then have "parse_poly (artifact_text L attr ?kept) =
      Some (attr, map (\<lambda>(k, r). (str_nat k, vertex_tokens L r)) (enumerate 0 ?kept))"
    using assms(3) by (simp add: parse_artifact_text)
  moreover have "map snd (map (\<lambda>(k, r). (str_nat k, vertex_tokens L r)) (enumerate 0 ?kept)) =
      map (vertex_tokens L) ?kept"
    using enumerate_map_snd [of "vertex_tokens L" 0 ?kept]
    by (simp add: comp_def case_prod_unfold)
  moreover from row_step_Done_artifact [OF assms(1)] assms(2,4)
  have "files st' (poly_dir @ ''/'' @ attr @ ''.poly'') = Some (artifact_text L attr ?kept)"
    by auto
  ultimately show ?thesis by simp
qed

theorem artifact_round_trip_witness:
  "\<exists>st' body. row_step sample_libs ''d'' False can_country (start Map.empty) = Done st' \<and>
     files st' ''d/CAN.poly'' = Some body \<and>
     map_option (\<lambda>(label, rs). (label, map snd rs)) (parse_poly body) =
       Some (''CAN'', [[(''-80.0'', ''43.0''), (''-78.0'', ''43.0''), (''-78.0'', ''44.0''),
                        (''-80.0'', ''44.0''), (''-80.0'', ''43.0'')]])"
proof -
  obtain st' where d: "row_step sample_libs ''d'' False can_country (start Map.empty) = Done st'"
    by (simp add: row_step_def writer_defs)
  from d have p: "polygons st' = Some [box (- 81) 82 2 2, box (- 80) 43 2 1]"
    by (auto simp add: row_step_def country_row_def can_country_def Let_def split: prod.splits)
  have a: "attr_of False can_country = Some ''CAN''"
    by (simp add: attr_of_def can_country_def country_row_def)
  have n: "CHR 0x0A \<notin> set ''CAN''" by simp
  have k: "list_all (ring_ok sample_libs) [box (- 81) 82 2 2, box (- 80) 43 2 1]"
    by (simp add: ring_ok_def token_ok_def sample_libs_def box_def str_int_def
          str_nat.simps digit_char_def)
  from artifact_round_trip [OF d a n p k] d show ?thesis
    by (simp add: writer_defs excluded_def vertex_tokens_def str_nat.simps digit_char_def)
qed

text \<open>
  C6, as the code has it. The artifact of a row is named by GID_0 when not
  regionalized and by GID_1 when regionalized, whatever the level of the table (the
  writer takes no level); the files of a completed run are those present before and
  one file, named by the code alone, for each row that passes the filter.
\<close>

theorem artifact_named_by_code:
  assumes "poly_files L data_path wb_poly regionalized fs = Done st'"
  shows "dom (files st') = dom fs \<union>
     {p. \<exists>r \<in> set wb_poly. GID_0 r \<noteq> ''-'' \<and> (regionalized \<longrightarrow> TYPE_1 r \<noteq> ''Water body'') \<and>
        (\<exists>attr. (if regionalized then GID_N r 1 else Some (GID_0 r)) = Some attr \<and>
           p = path_join data_path
                 (if regionalized then ''regional_poly_files'' else ''country_poly_files'')
               @ ''/'' @ attr @ ''.poly'')}"
proof (cases regionalized)
  case True
  with assms have "rows_loop L (path_join data_path ''regional_poly_files'') True
      (filter (\<lambda>r. TYPE_1 r \<noteq> ''Water body'') (filter (\<lambda>r. GID_0 r \<noteq> ''-'') wb_poly))
      \<lparr>num = 0, polygons = None, files = fs, printed = []\<rparr> = Done st'"
    by (simp add: poly_files_def)
  from rows_loop_dom [OF this] True show ?thesis
    by (auto simp add: attr_of_def)
next
  case False
  with assms have "rows_loop L (path_join data_path ''country_poly_files'') False
      (filter (\<lambda>r. GID_0 r \<noteq> ''-'') wb_poly)
      \<lparr>num = 0, polygons = None, files = fs, printed = []\<rparr> = Done st'"
    by (simp add: poly_files_def)
  from rows_loop_dom [OF this] False show ?thesis
    by (auto simp add: attr_of_def)
qed

theorem artifact_named_by_code_witness:
  "\<exists>st'. poly_files sample_libs ''data''
       [country_row ''NLD'' (Polygon (box 5 52 1 1)), country_row ''-'' (Polygon (box 0 0 1 1)),
        can_country] False Map.empty = Done st' \<and>
     dom (files st') = {''data/country_poly_files/NLD.poly'', ''data/country_poly_files/CAN.poly''}"
proof -
  obtain st' where d: "poly_files sample_libs ''data''
       [country_row ''NLD'' (Polygon (box 5 52 1 1)), country_row ''-'' (Polygon (box 0 0 1 1)),
        can_country] False Map.empty = Done st'"
    by (simp add: poly_files_def row_step_def path_join_def writer_defs)
  from artifact_named_by_code [OF d] have
    "dom (files st') = {''data/country_poly_files/NLD.poly'', ''data/country_poly_files/CAN.poly''}"
    by (auto simp add: path_join_def country_row_def can_country_def)
  with d show ?thesis by blast
qed

text \<open>
  C6 as the specification words it fails: a row of a level-2 table is written under
  its level-1 code, not under its code of the requested level.
\<close>

theorem level2_name_counterexample:
  "raised (poly_files sample_libs ''data'' [level2_row] True Map.empty) = None \<and>
   dom (files (final_state (poly_files sample_libs ''data'' [level2_row] True Map.empty))) =
     {''data/regional_poly_files/NLD.1_1.poly''} \<and>
   GID_N level2_row 2 = Some ''NLD.1.1_1''"
  by (simp add: poly_files_def row_step_def path_join_def writer_defs level2_row_def
        raised_def final_state_def)

text \<open>
  C8 fails on the code. The test of the geometry type has no last branch: a geometry
  that is neither a polygon nor a multipolygon leaves \<open>polygons\<close> as it was. In the
  first row, the file of the row is created with its label line, the loop over the
  unbound \<open>polygons\<close> raises, nothing catches the error, and the row after it is never
  written. In a later row no error is raised at all, and the file of the row is written
  with the rings of the row before. A missing geometry in the first row raises before
  any file is opened, and ends the call as well. remove_tiny_shapes returns nothing for
  a geometry of another type and raises nothing.
\<close>

theorem malformed_row_breaks_batch:
  "poly_files sample_libs ''data''
       [country_row ''ATA'' OtherGeometry, country_row ''NLD'' (Polygon (box 5 52 1 1))]
       False Map.empty =
     Raised UnboundLocalError
       \<lparr>num = 1, polygons = None,
        files = [''data/country_poly_files/ATA.poly'' \<mapsto> ''ATA'' @ [CHR 0x0A]],
        printed = []\<rparr> \<and>
   raised (poly_files sample_libs ''data''
       [country_row ''NLD'' (Polygon (box 5 52 1 1)), country_row ''ATA'' OtherGeometry]
       False Map.empty) = None \<and>
   files (final_state (poly_files sample_libs ''data''
       [country_row ''NLD'' (Polygon (box 5 52 1 1)), country_row ''ATA'' OtherGeometry]
       False Map.empty)) ''data/country_poly_files/ATA.poly'' =
     Some (artifact_text sample_libs ''ATA'' [box 5 52 1 1]) \<and>
   poly_files sample_libs ''data''
       [country_row ''ATA'' NoGeometry, country_row ''NLD'' (Polygon (box 5 52 1 1))]
       False Map.empty =
     Raised AttributeError \<lparr>num = 1, polygons = None, files = Map.empty, printed = []\<rparr> \<and>
   remove_tiny_shapes planar_area (country_row ''ATA'' OtherGeometry) False = Inr None"
  by (simp add: remove_tiny_shapes_def poly_files_def row_step_def path_join_def
        country_row_def raised_def final_state_def artifact_text_def ring_block_def
        vertex_line_def vertex_text_def sample_libs_def box_def)

section \<open>The claims about region synthesis and clipping\<close>

text \<open>
  C5 fails on the code: the regionalized branch never gets as far as the synthesis of
  regions. It hands the shapely geometries of the region table to remove_tiny_shapes
  without the conversion that the country branch makes, and the first row with a
  geometry raises a TypeError; for a region table without rows the assignment of
  line 175 raises a ValueError. (The codes of lines 189 to 198 are the country code, L
  times \<open>.0\<close>, and \<open>_1\<close>.)
\<close>

theorem region_branch_raises:
  "global_regions id planar_area
       (Some [country_row ''NLD'' (Polygon (rect 4 51 3 2)),
              country_row ''MCO'' (Polygon (rect 7 43 0.1 0.1))])
       [region_row ''NLD'' ''NLD.1_1'' (Polygon (rect 4 51 1 1))] 1 = Inl TypeError \<and>
   global_regions id planar_area
       (Some [country_row ''NLD'' (Polygon (rect 4 51 3 2)),
              country_row ''MCO'' (Polygon (rect 7 43 0.1 0.1))])
       [] 1 = Inl ValueError \<and>
   missing_code 1 ''MCO'' = Some ''MCO.0_1''"
  by (simp add: global_regions_def remove_tiny_shapes_read_def region_row_def
        missing_code_def str_nat_0 str_nat_1)

text \<open>
  C9. When the destination exists, either clip function hands no command to the
  backend, leaves the existing paths as they are and reports the area as finished;
  run twice, it still has issued no command.
\<close>

theorem clip_existing_destination_noop:
  assumes "area_pbf \<in> existing st"
  shows "clip_osm_osmconvert backend data_path planet_path area_poly area_pbf st =
           st\<lparr>console := console st @ [area_pbf @ '' started!'', area_pbf @ '' finished!'']\<rparr> \<and>
         clip_osm_osmosis backend planet_osm_repr data_path planet_path area_poly area_pbf st =
           st\<lparr>console := console st @ [area_pbf @ '' started!'', area_pbf @ '' finished!'']\<rparr> \<and>
         commands (clip_osm_osmconvert backend data_path planet_path area_poly area_pbf
           (clip_osm_osmconvert backend data_path planet_path area_poly area_pbf st)) =
           commands st \<and>
         existing (clip_osm_osmconvert backend data_path planet_path area_poly area_pbf
           (clip_osm_osmconvert backend data_path planet_path area_poly area_pbf st)) =
           existing st \<and>
         commands (clip_osm_osmosis backend planet_osm_repr data_path planet_path area_poly area_pbf
           (clip_osm_osmosis backend planet_osm_repr data_path planet_path area_poly area_pbf st)) =
           commands st \<and>
         existing (clip_osm_osmosis backend planet_osm_repr data_path planet_path area_poly area_pbf
           (clip_osm_osmosis backend planet_osm_repr data_path planet_path area_poly area_pbf st)) =
           existing st"
  using assms by (simp add: clip_osm_osmconvert_def clip_osm_osmosis_def Let_def)

theorem clip_existing_destination_noop_witness:
  "clip_osm_osmconvert writes_output ''data'' ''planet.osm.pbf'' ''poly/NLD.poly'' ''out/NLD.osm.pbf''
      \<lparr>existing = {''out/NLD.osm.pbf''}, commands = [], console = []\<rparr> =
     \<lparr>existing = {''out/NLD.osm.pbf''}, commands = [],
      console = [''out/NLD.osm.pbf started!'', ''out/NLD.osm.pbf finished!'']\<rparr> \<and>
   commands (clip_osm_osmosis writes_output ''<function planet_osm>'' ''data'' ''planet.osm.pbf''
       ''poly/NLD.poly'' ''out/NLD.osm.pbf''
      \<lparr>existing = {''out/NLD.osm.pbf''}, commands = [], console = []\<rparr>) = []"
  using clip_existing_destination_noop [of "''out/NLD.osm.pbf''"
      "\<lparr>existing = {''out/NLD.osm.pbf''}, commands = [], console = []\<rparr>"
      writes_output "''data''" "''planet.osm.pbf''" "''poly/NLD.poly''" "''<function planet_osm>''"]
  by simp

end
